theory Spec2Isabelle
  imports Complex_Main "HOL-Library.Sublist" "HOL-Library.Code_Target_Nat"
begin

section \<open>JavaScript values and string helpers\<close>

text \<open>
  A JavaScript string is kept as the bytes of its UTF-8 encoding (\<open>char list\<close>), which is
  defined for well-formed text. The strings the program compares with (\<open>whatsapp:\<close>, the
  keywords, commas, digits) are ASCII, and an ASCII string occurs in a text exactly where
  its bytes occur in the encoding, so \<open>startsWith\<close>, \<open>includes\<close> and \<open>replace\<close> are the
  operations on byte lists. Lower-casing beyond ASCII is left to the runtime
  (\<open>toLowerCase_ascii\<close> below).

  A field of the parsed form body (\<open>req.body\<close>, built by \<open>express.urlencoded\<close> with
  \<open>extended: false\<close>) is absent, a string, or an array of strings when the key is repeated.
  \<open>jsval\<close> holds these three shapes, and the booleans that \<open>a && b\<close> produces. (A JSON
  body could put other values into the six fields the webhook reads; for these fields the
  model keeps to the shapes of a form body.)
\<close>

datatype jsval = JUndefined | JString string | JBoolean bool | JArray "string list"

datatype error = TypeError

text \<open>Truthiness: \<open>undefined\<close>, \<open>''\<close> and \<open>false\<close> are falsy; every array is truthy.\<close>

fun truthy :: "jsval \<Rightarrow> bool" where
  "truthy JUndefined = False"
| "truthy (JString s) = (s \<noteq> [])"
| "truthy (JBoolean b) = b"
| "truthy (JArray xs) = True"

text \<open>\<open>a || b\<close> and \<open>a && b\<close> return one of their operands.\<close>

definition js_or :: "jsval \<Rightarrow> jsval \<Rightarrow> jsval" where
  "js_or a b = (if truthy a then a else b)"

definition js_and :: "jsval \<Rightarrow> jsval \<Rightarrow> jsval" where
  "js_and a b = (if truthy a then b else a)"

text \<open>\<open>s.startsWith(p)\<close>, \<open>s.includes(w)\<close> and \<open>s.replace(p, r)\<close> with a string pattern
  (which replaces the first occurrence only).\<close>

definition startsWith :: "string \<Rightarrow> string \<Rightarrow> bool" where
  "startsWith s p = (take (length p) s = p)"

fun includes_str :: "string \<Rightarrow> string \<Rightarrow> bool" where
  "includes_str [] w = (w = [])"
| "includes_str (c # cs) w = (startsWith (c # cs) w \<or> includes_str cs w)"

fun replace :: "string \<Rightarrow> string \<Rightarrow> string \<Rightarrow> string" where
  "replace [] p r = (if p = [] then r else [])"
| "replace (c # cs) p r =
     (if startsWith (c # cs) p then r @ drop (length p) (c # cs) else c # replace cs p r)"

definition upper_letters :: string where
  "upper_letters = ''ABCDEFGHIJKLMNOPQRSTUVWXYZ''"

definition lower_letters :: string where
  "lower_letters = ''abcdefghijklmnopqrstuvwxyz''"

definition lower_char :: "char \<Rightarrow> char" where
  "lower_char c = (case map_of (zip upper_letters lower_letters) c of Some d \<Rightarrow> d | None \<Rightarrow> c)"

text \<open>
  \<open>s.toLowerCase()\<close> on ASCII text: the built-in maps \<open>A\<close>-\<open>Z\<close> to \<open>a\<close>-\<open>z\<close> and leaves every
  other ASCII character alone. What it does to other characters follows the Unicode tables
  of the runtime and is not defined here: the parser and the webhook take the built-in as a
  parameter, and \<open>toLowerCase_ascii\<close> stands for it on ASCII text only. The \<open>i\<close> flag of the
  location pattern is exactly this fold on every text, because without the \<open>u\<close> flag it never
  relates a character outside ASCII to an ASCII letter.
\<close>

definition toLowerCase_ascii :: "string \<Rightarrow> string" where
  "toLowerCase_ascii s = map lower_char s"

text \<open>
  White space of \<open>\s\<close>, \<open>trim\<close> and \<open>parseInt\<close>, each character by its UTF-8 bytes: tab, line
  feed, vertical tab, form feed, carriage return, space, U+00A0, U+1680, U+2000 to U+200A,
  U+2028, U+2029, U+202F, U+205F, U+3000 and U+FEFF.
\<close>

definition whitespace :: "string list" where
  "whitespace =
     [[CHR 0x09], [CHR 0x0A], [CHR 0x0B], [CHR 0x0C], [CHR 0x0D], [CHR 0x20],
      [CHR 0xC2, CHR 0xA0],
      [CHR 0xE1, CHR 0x9A, CHR 0x80],
      [CHR 0xE2, CHR 0x80, CHR 0x80], [CHR 0xE2, CHR 0x80, CHR 0x81],
      [CHR 0xE2, CHR 0x80, CHR 0x82], [CHR 0xE2, CHR 0x80, CHR 0x83],
      [CHR 0xE2, CHR 0x80, CHR 0x84], [CHR 0xE2, CHR 0x80, CHR 0x85],
      [CHR 0xE2, CHR 0x80, CHR 0x86], [CHR 0xE2, CHR 0x80, CHR 0x87],
      [CHR 0xE2, CHR 0x80, CHR 0x88], [CHR 0xE2, CHR 0x80, CHR 0x89],
      [CHR 0xE2, CHR 0x80, CHR 0x8A],
      [CHR 0xE2, CHR 0x80, CHR 0xA8], [CHR 0xE2, CHR 0x80, CHR 0xA9],
      [CHR 0xE2, CHR 0x80, CHR 0xAF],
      [CHR 0xE2, CHR 0x81, CHR 0x9F],
      [CHR 0xE3, CHR 0x80, CHR 0x80],
      [CHR 0xEF, CHR 0xBB, CHR 0xBF]]"

text \<open>The longest run of characters out of \<open>seqs\<close> at the head of a text, character by
  character, and the text without it.\<close>

function space_run :: "string list \<Rightarrow> string \<Rightarrow> string list" where
  "space_run seqs s =
     (case find (\<lambda>p. p \<noteq> [] \<and> startsWith s p) seqs of
        None \<Rightarrow> []
      | Some p \<Rightarrow> p # space_run seqs (drop (length p) s))"
  by pat_completeness auto
termination
proof (relation "measure (\<lambda>(seqs, s). length s)")
  show "wf (measure (\<lambda>(seqs, s). length s))" by simp
next
  fix seqs :: "string list" and s p :: string
  assume "find (\<lambda>p. p \<noteq> [] \<and> startsWith s p) seqs = Some p"
  then have "p \<noteq> []" and "take (length p) s = p"
    by (auto simp add: find_Some_iff startsWith_def)
  then have "s \<noteq> []" by auto
  with \<open>p \<noteq> []\<close> show "((seqs, drop (length p) s), (seqs, s)) \<in> measure (\<lambda>(seqs, s). length s)"
    by simp
qed

declare space_run.simps [simp del]

definition strip_run :: "string list \<Rightarrow> string \<Rightarrow> string" where
  "strip_run seqs s = drop (length (concat (space_run seqs s))) s"

text \<open>\<open>s.trim()\<close>: the white space at the end is found on the reversed text.\<close>

definition trim :: "string \<Rightarrow> string" where
  "trim s = rev (strip_run (map rev whitespace) (rev (strip_run whitespace s)))"

section \<open>Channel detector\<close>

text \<open>
  \<^verbatim>\<open>
  function getChannelInfo(fromNumber) {
    const isWhatsApp = fromNumber && fromNumber.startsWith('whatsapp:');
    return { isWhatsApp,
             cleanNumber: isWhatsApp ? fromNumber.replace('whatsapp:', '') : fromNumber,
             channel: isWhatsApp ? 'whatsapp' : 'sms' };
  }
  \<close>
  A falsy argument (\<open>undefined\<close>, \<open>''\<close>) short-circuits \<open>&&\<close> and becomes the value of
  \<open>isWhatsApp\<close> itself. An array has no \<open>startsWith\<close> method, so calling it raises a
  TypeError.
\<close>

record channel_info =
  isWhatsApp :: jsval
  cleanNumber :: jsval
  channel :: string

fun getChannelInfo :: "jsval \<Rightarrow> error + channel_info" where
  "getChannelInfo (JString s) =
     (let isW = js_and (JString s) (JBoolean (startsWith s ''whatsapp:''))
      in Inr \<lparr>isWhatsApp = isW,
              cleanNumber = (if truthy isW then JString (replace s ''whatsapp:'' '''') else JString s),
              channel = (if truthy isW then ''whatsapp'' else ''sms'')\<rparr>)"
| "getChannelInfo (JArray xs) = Inl TypeError"
| "getChannelInfo (JBoolean b) =
     (if b then Inl TypeError
      else Inr \<lparr>isWhatsApp = JBoolean b, cleanNumber = JBoolean b, channel = ''sms''\<rparr>)"
| "getChannelInfo JUndefined =
     Inr \<lparr>isWhatsApp = JUndefined, cleanNumber = JUndefined, channel = ''sms''\<rparr>"

section \<open>Hazard parser\<close>

text \<open>The two keyword tables, in the order \<open>Object.entries\<close> enumerates them.\<close>

definition hazardTypes :: "(string \<times> string list) list" where
  "hazardTypes =
     [(''flood'', [''flood'', ''flooding'', ''inundation'']),
      (''tsunami'', [''tsunami'', ''wave surge'', ''surge'']),
      (''storm'', [''storm'', ''cyclone'', ''wind'']),
      (''waves'', [''wave'', ''waves'', ''high waves''])]"

definition urgencyLevels :: "(string \<times> string list) list" where
  "urgencyLevels =
     [(''urgent'', [''urgent'', ''immediate'', ''emergency'', ''help'']),
      (''medium'', [''serious'', ''dangerous'', ''high'']),
      (''low'', [''normal'', ''minor'', ''small''])]"

text \<open>
  \<^verbatim>\<open>
  let hazardType = 'other';
  for (const [k, v] of Object.entries(hazardTypes)) {
    if (v.some(w => msg.includes(w))) { hazardType = k; break; }
  }
  \<close>
  The loop with its \<open>break\<close>, for either table; \<open>dflt\<close> is the initial value.
\<close>

fun first_match :: "(string \<times> string list) list \<Rightarrow> string \<Rightarrow> string \<Rightarrow> string" where
  "first_match [] msg dflt = dflt"
| "first_match ((k, v) # es) msg dflt =
     (if list_ex (\<lambda>w. includes_str msg w) v then k else first_match es msg dflt)"

text \<open>In the words of the specification: some keyword of a category occurs in the message
  as a contiguous substring. The properties compare \<open>first_match\<close> with it.\<close>

definition keyword_match :: "string \<Rightarrow> string \<times> string list \<Rightarrow> bool" where
  "keyword_match msg cat = (\<exists>w \<in> set (snd cat). sublist w msg)"

text \<open>
  The location pattern \<open>/(?:at|in|near)\s+([^,\.\n]+)/i\<close>, as the backtracking matcher
  runs it. At a start position one of the three words must match (ignoring case), then
  \<open>\s+\<close> takes white space greedily and gives it back one character at a time until the
  capture group, which takes every character up to the next comma, full stop or line feed,
  is not empty. The search moves to the next start position when all of that fails.
\<close>

definition stop_char :: "char \<Rightarrow> bool" where
  "stop_char c = (c = CHR '','' \<or> c = CHR ''.'' \<or> c = CHR 0x0A)"

definition keyword_rest :: "string \<Rightarrow> string option" where
  "keyword_rest s =
     (if startsWith (toLowerCase_ascii s) ''at'' then Some (drop 2 s)
      else if startsWith (toLowerCase_ascii s) ''in'' then Some (drop 2 s)
      else if startsWith (toLowerCase_ascii s) ''near'' then Some (drop 4 s)
      else None)"

text \<open>\<open>run\<close> is the white space after the word, character by character; the attempt
  with \<open>k\<close> of its characters taken by \<open>\s+\<close> comes before the attempt with fewer.\<close>

fun spaces_then_capture :: "nat \<Rightarrow> string list \<Rightarrow> string \<Rightarrow> string option" where
  "spaces_then_capture 0 run s = None"
| "spaces_then_capture (Suc k) run s =
     (let cap = takeWhile (\<lambda>c. \<not> stop_char c) (drop (length (concat (take (Suc k) run))) s)
      in if cap \<noteq> [] then Some cap else spaces_then_capture k run s)"

definition match_here :: "string \<Rightarrow> string option" where
  "match_here s =
     (case keyword_rest s of
        None \<Rightarrow> None
      | Some r \<Rightarrow> spaces_then_capture (length (space_run whitespace r)) (space_run whitespace r) r)"

fun match_location :: "string \<Rightarrow> string option" where
  "match_location [] = match_here []"
| "match_location (c # cs) =
     (case match_here (c # cs) of Some cap \<Rightarrow> Some cap | None \<Rightarrow> match_location cs)"

text \<open>
  \<^verbatim>\<open>
  function parseHazardReport(messageBody) {
    const msg = (messageBody || '').toLowerCase();
    ...
    const m = msg.match(locationPattern);
    const location = m ? m[1].trim() : 'Unknown location';
    return { hazardType, urgency, location, originalMessage: messageBody };
  }
  \<close>
  \<open>toLowerCase\<close> exists on strings only: a truthy argument that is not a string (an array)
  raises a TypeError. \<open>lc\<close> is the built-in \<open>toLowerCase\<close> of the runtime;
  \<open>parseHazardReport\<close> is the parser on ASCII text, where the built-in is the ASCII fold.
\<close>

record parsed_report =
  p_hazardType :: string
  p_urgency :: string
  p_location :: string
  originalMessage :: jsval

definition parse_msg :: "jsval \<Rightarrow> string \<Rightarrow> parsed_report" where
  "parse_msg messageBody msg =
     \<lparr>p_hazardType = first_match hazardTypes msg ''other'',
      p_urgency = first_match urgencyLevels msg ''medium'',
      p_location = (case match_location msg of Some m1 \<Rightarrow> trim m1 | None \<Rightarrow> ''Unknown location''),
      originalMessage = messageBody\<rparr>"

definition parseHazardReport_with :: "(string \<Rightarrow> string) \<Rightarrow> jsval \<Rightarrow> error + parsed_report" where
  "parseHazardReport_with lc messageBody =
     (case js_or messageBody (JString '''') of
        JString s \<Rightarrow> Inr (parse_msg messageBody (lc s))
      | _ \<Rightarrow> Inl TypeError)"

definition parseHazardReport :: "jsval \<Rightarrow> error + parsed_report" where
  "parseHazardReport messageBody = parseHazardReport_with toLowerCase_ascii messageBody"

section \<open>Numbers as text\<close>

text \<open>\<open>String(n)\<close> for a non-negative integer, and \<open>s.slice(-k)\<close>: the last \<open>k\<close> characters
  (the whole string when it is shorter).\<close>

definition digit_char :: "nat \<Rightarrow> char" where
  "digit_char d = ''0123456789'' ! (d mod 10)"

fun String_nat :: "nat \<Rightarrow> string" where
  "String_nat n = (if n < 10 then [digit_char n] else String_nat (n div 10) @ [digit_char (n mod 10)])"

declare String_nat.simps [simp del]

definition slice_last :: "nat \<Rightarrow> string \<Rightarrow> string" where
  "slice_last k s = drop (length s - k) s"

text \<open>
  \<open>parseInt(s)\<close>: leading white space, an optional sign, an optional \<open>0x\<close> prefix, then the
  longest run of digits of the radix; \<open>None\<close> is NaN. An argument that is not a string is
  converted first (\<open>String(v)\<close>: an array joins its elements with commas).
\<close>

definition digit_val :: "char \<Rightarrow> nat option" where
  "digit_val c =
     map_of (zip ''0123456789abcdef'' [0, 1, 2, 3, 4, 5, 6, 7, 8, 9, 10, 11, 12, 13, 14, 15])
       (lower_char c)"

definition is_digit :: "nat \<Rightarrow> char \<Rightarrow> bool" where
  "is_digit radix c = (case digit_val c of Some d \<Rightarrow> d < radix | None \<Rightarrow> False)"

definition digits_value :: "nat \<Rightarrow> string \<Rightarrow> nat" where
  "digits_value radix ds =
     foldl (\<lambda>a c. a * radix + (case digit_val c of Some d \<Rightarrow> d | None \<Rightarrow> 0)) 0 ds"

definition parseInt :: "string \<Rightarrow> int option" where
  "parseInt s =
     (let s1 = strip_run whitespace s;
          neg = startsWith s1 ''-'';
          s2 = (if startsWith s1 ''-'' \<or> startsWith s1 ''+'' then drop 1 s1 else s1);
          hex = startsWith (toLowerCase_ascii s2) ''0x'';
          radix = (if hex then 16 else 10);
          s3 = (if hex then drop 2 s2 else s2);
          ds = takeWhile (is_digit radix) s3
      in if ds = [] then None
         else Some ((if neg then - 1 else 1) * int (digits_value radix ds)))"

fun join_comma :: "string list \<Rightarrow> string" where
  "join_comma [] = []"
| "join_comma [x] = x"
| "join_comma (x # y # ys) = x @ '','' @ join_comma (y # ys)"

fun js_to_string :: "jsval \<Rightarrow> string" where
  "js_to_string JUndefined = ''undefined''"
| "js_to_string (JString s) = s"
| "js_to_string (JBoolean b) = (if b then ''true'' else ''false'')"
| "js_to_string (JArray xs) = join_comma xs"

text \<open>\<open>parseInt(v) > 0\<close>; a comparison with NaN is false.\<close>

definition parseInt_gt0 :: "jsval \<Rightarrow> bool" where
  "parseInt_gt0 v = (case parseInt (js_to_string v) of Some i \<Rightarrow> i > 0 | None \<Rightarrow> False)"

section \<open>Geocoder\<close>

text \<open>
  The body of the lookup response after \<open>res.json()\<close>. Numbers are IEEE doubles in
  JavaScript; the model keeps a JSON number as a real and the result of \<open>parseFloat(v)\<close>
  as the term \<open>ParseFloat v\<close> (\<open>None\<close> is \<open>undefined\<close>), without computing the double.
\<close>

datatype json = JNull | JBool bool | JNum real | JStr string | JArr "json list"
  | JObj "(string \<times> json) list"

datatype jsnum = ParseFloat "json option"

record coords =
  lat :: jsnum
  lon :: jsnum

text \<open>What \<open>fetch\<close> followed by \<open>res.json()\<close> yields: either of them may reject.\<close>

datatype lookup_outcome = FetchError | NotJson | Json json

fun json_truthy :: "json \<Rightarrow> bool" where
  "json_truthy JNull = False"
| "json_truthy (JBool b) = b"
| "json_truthy (JNum x) = (x \<noteq> 0)"
| "json_truthy (JStr s) = (s \<noteq> [])"
| "json_truthy (JArr xs) = True"
| "json_truthy (JObj kv) = True"

text \<open>Truthiness of \<open>json.length\<close>, the value \<open>json[0]\<close> and a property read \<open>v.k\<close>;
  reading a property of \<open>null\<close> or \<open>undefined\<close> raises a TypeError. Of \<open>json[0]\<close> of a
  string, a one-character string, only its being a string is used (it has no \<open>lat\<close> and no
  \<open>lon\<close>); the model keeps its first byte.\<close>

fun length_truthy :: "json \<Rightarrow> bool" where
  "length_truthy (JArr xs) = (xs \<noteq> [])"
| "length_truthy (JStr s) = (s \<noteq> [])"
| "length_truthy (JObj kv) = (case map_of kv ''length'' of Some v \<Rightarrow> json_truthy v | None \<Rightarrow> False)"
| "length_truthy v = False"

fun index0 :: "json \<Rightarrow> json option" where
  "index0 (JArr xs) = (case xs of [] \<Rightarrow> None | x # _ \<Rightarrow> Some x)"
| "index0 (JStr s) = (case s of [] \<Rightarrow> None | c # _ \<Rightarrow> Some (JStr [c]))"
| "index0 (JObj kv) = map_of kv ''0''"
| "index0 v = None"

fun get_prop :: "json option \<Rightarrow> string \<Rightarrow> error + json option" where
  "get_prop None k = Inl TypeError"
| "get_prop (Some JNull) k = Inl TypeError"
| "get_prop (Some (JObj kv)) k = Inr (map_of kv k)"
| "get_prop (Some v) k = Inr None"

text \<open>
  The cache is a plain object created by \<open>{}\<close>, so \<open>global._geoCache[place]\<close> finds the
  members of \<open>Object.prototype\<close> too: for these names the read is truthy before anything
  was stored, and the geocoder returns the inherited member.
\<close>

datatype geo_value = Coords coords | Inherited string

definition object_prototype_keys :: "string list" where
  "object_prototype_keys =
     [''constructor'', ''__proto__'', ''hasOwnProperty'', ''isPrototypeOf'',
      ''propertyIsEnumerable'', ''toLocaleString'', ''toString'', ''valueOf'',
      ''__defineGetter__'', ''__defineSetter__'', ''__lookupGetter__'', ''__lookupSetter__'']"

definition cache_get :: "(string \<rightharpoonup> coords) \<Rightarrow> string \<Rightarrow> geo_value option" where
  "cache_get c place =
     (case c place of
        Some xy \<Rightarrow> Some (Coords xy)
      | None \<Rightarrow> if place \<in> set object_prototype_keys then Some (Inherited place) else None)"

section \<open>Reports and the state of the process\<close>

record media_info =
  filename :: string
  filepath :: string
  size_bytes :: nat
  contentType :: jsval
  url :: string

text \<open>\<open>reportData\<close> as the webhook builds it; \<open>saveReport\<close> adds \<open>id\<close> and \<open>createdAt\<close> to the
  same object, and the webhook adds \<open>media\<close> later. \<open>createdAt\<close> is kept as the clock reading
  that \<open>toISOString\<close> renders.\<close>

record report_data =
  phoneNumber :: jsval
  message :: jsval
  hazardType :: string
  location :: string
  coordinates :: "geo_value option"
  urgency :: string
  messageSid :: jsval
  source :: string
  status :: string
  hasMedia :: jsval

record report = report_data +
  report_id :: string
  createdAt :: nat
  media :: "media_info option"

record outbound =
  msg_body :: string
  msg_from :: string
  msg_to :: string

text \<open>
  The mutable state: the \<open>reports\<close> array, the content of \<open>reports.json\<close>, the geocode cache
  (the empty map stands for both the missing and the empty cache object) and \<open>lastGeoTs\<close>,
  and a record of what was sent out: every lookup dispatched (the phrase and the wait before
  it), every file written to the media directory, every \<open>new-report\<close> event and every
  message handed to the gateway.
\<close>

record world =
  reports :: "report list"
  reports_file :: "report list option"
  geoCache :: "string \<rightharpoonup> coords"
  lastGeoTs :: int
  lookups :: "(string \<times> int) list"
  media_files :: "string list"
  emitted :: "report list"
  outbox :: "outbound list"

record config =
  TWILIO_ACCOUNT_SID :: string
  TWILIO_AUTH_TOKEN :: string
  TWILIO_PHONE_NUMBER :: string
  TWILIO_WHATSAPP_FROM :: string
  TWILIO_WEBHOOK_URL :: string

subsection \<open>geocodeLocation\<close>

text \<open>
  \<^verbatim>\<open>
  async function geocodeLocation(place) {
    if (!place || place === 'Unknown location') return null;
    if (!global._geoCache) global._geoCache = {};
    if (global._geoCache[place]) return global._geoCache[place];
    const waitMs = Math.max(0, 1100 - (Date.now() - lastGeoTs));
    if (waitMs > 0) await new Promise(r => setTimeout(r, waitMs));
    lastGeoTs = Date.now();
    const url = ...;
    try {
      const res = await fetch(url, ...);
      const json = await res.json();
      if (json && json.length) {
        const coords = { lat: parseFloat(json[0].lat), lon: parseFloat(json[0].lon) };
        global._geoCache[place] = coords;
        return coords;
      }
    } catch (e) { console.error('Geocode error:', e.message); }
    return null;
  }
  \<close>
  The function runs in three pieces, with an \<open>await\<close> between them at which other requests
  may run: the checks up to the cache read (\<open>geocode_cached\<close>: \<open>Some r\<close> when the call
  returns \<open>r\<close> there), the dispatch of the lookup (\<open>geocode_dispatch\<close>, with the two clock
  readings), and the handling of its outcome (\<open>geocode_complete\<close>).
\<close>

definition geocode_cached :: "string \<Rightarrow> world \<Rightarrow> geo_value option option" where
  "geocode_cached place w =
     (if place = [] \<or> place = ''Unknown location'' then Some None
      else case cache_get (geoCache w) place of Some v \<Rightarrow> Some (Some v) | None \<Rightarrow> None)"

definition waitMs :: "int \<Rightarrow> world \<Rightarrow> int" where
  "waitMs now w = max 0 (1100 - (now - lastGeoTs w))"

definition geocode_dispatch :: "string \<Rightarrow> int \<Rightarrow> int \<Rightarrow> world \<Rightarrow> world" where
  "geocode_dispatch place now1 now2 w =
     w\<lparr>lastGeoTs := now2, lookups := lookups w @ [(place, waitMs now1 w)]\<rparr>"

definition first_coords :: "json \<Rightarrow> error + coords" where
  "first_coords j =
     (case get_prop (index0 j) ''lat'' of
        Inl e \<Rightarrow> Inl e
      | Inr la \<Rightarrow>
          (case get_prop (index0 j) ''lon'' of
             Inl e \<Rightarrow> Inl e
           | Inr lo \<Rightarrow> Inr \<lparr>lat = ParseFloat la, lon = ParseFloat lo\<rparr>))"

definition geocode_complete :: "string \<Rightarrow> lookup_outcome \<Rightarrow> world \<Rightarrow> geo_value option \<times> world" where
  "geocode_complete place outcome w =
     (case outcome of
        FetchError \<Rightarrow> (None, w)
      | NotJson \<Rightarrow> (None, w)
      | Json j \<Rightarrow>
          if json_truthy j \<and> length_truthy j then
            (case first_coords j of
               Inl e \<Rightarrow> (None, w)
             | Inr c \<Rightarrow> (Some (Coords c), w\<lparr>geoCache := (geoCache w)(place \<mapsto> c)\<rparr>))
          else (None, w))"

text \<open>One call run to its end with nothing else in between.\<close>

definition geocodeLocation ::
  "string \<Rightarrow> int \<Rightarrow> int \<Rightarrow> lookup_outcome \<Rightarrow> world \<Rightarrow> geo_value option \<times> world" where
  "geocodeLocation place now1 now2 outcome w =
     (case geocode_cached place w of
        Some r \<Rightarrow> (r, w)
      | None \<Rightarrow> geocode_complete place outcome (geocode_dispatch place now1 now2 w))"

section \<open>Report store\<close>

text \<open>\<open>persistReports\<close> overwrites \<open>reports.json\<close> with the whole array; a failed write is
  caught and leaves the file as it was.\<close>

definition persistReports :: "bool \<Rightarrow> world \<Rightarrow> world" where
  "persistReports write_ok w = (if write_ok then w\<lparr>reports_file := Some (reports w)\<rparr> else w)"

text \<open>
  \<^verbatim>\<open>
  async function saveReport(report) {
    report.id = `REP${String(Date.now()).slice(-9)}`;
    report.createdAt = new Date().toISOString();
    reports.unshift(report);
    if (reports.length > 1000) reports = reports.slice(0, 1000);
    persistReports();
    return report;
  }
  \<close>
  \<open>now\<close> and \<open>created\<close> are the two clock readings (milliseconds since the epoch).
\<close>

definition make_id :: "nat \<Rightarrow> string" where
  "make_id now = ''REP'' @ slice_last 9 (String_nat now)"

definition stamp :: "report_data \<Rightarrow> nat \<Rightarrow> nat \<Rightarrow> report" where
  "stamp d now created =
     \<lparr>phoneNumber = phoneNumber d, message = message d, hazardType = hazardType d,
      location = location d, coordinates = coordinates d, urgency = urgency d,
      messageSid = messageSid d, source = source d, status = status d, hasMedia = hasMedia d,
      report_id = make_id now, createdAt = created, media = None\<rparr>"

definition saveReport :: "report_data \<Rightarrow> nat \<Rightarrow> nat \<Rightarrow> bool \<Rightarrow> world \<Rightarrow> report \<times> world" where
  "saveReport d now created write_ok w =
     (let r = stamp d now created;
          unshifted = r # reports w;
          kept = (if length unshifted > 1000 then take 1000 unshifted else unshifted)
      in (r, persistReports write_ok (w\<lparr>reports := kept\<rparr>)))"

text \<open>A run of creates, one after the other: each element gives the draft, the two clock
  readings and whether the write succeeded. The reports returned come in call order.\<close>

fun create_all ::
  "(report_data \<times> nat \<times> nat \<times> bool) list \<Rightarrow> world \<Rightarrow> report list \<times> world" where
  "create_all [] w = ([], w)"
| "create_all ((d, now, created, write_ok) # xs) w =
     (let (r, w1) = saveReport d now created write_ok w;
          (rs, w2) = create_all xs w1
      in (r # rs, w2))"

text \<open>\<open>GET /api/reports\<close> answers with the array as it is.\<close>

definition list_reports :: "world \<Rightarrow> nat \<times> report list" where
  "list_reports w = (length (reports w), reports w)"

section \<open>Media fetcher\<close>

definition extensions :: "(string \<times> string) list" where
  "extensions =
     [(''image/jpeg'', ''.jpg''), (''image/jpg'', ''.jpg''), (''image/png'', ''.png''),
      (''image/gif'', ''.gif''), (''image/webp'', ''.webp''), (''video/mp4'', ''.mp4''),
      (''video/quicktime'', ''.mov''), (''audio/mpeg'', ''.mp3''), (''audio/ogg'', ''.ogg''),
      (''application/pdf'', ''.pdf''), (''text/plain'', ''.txt'')]"

text \<open>
  \<open>extensions[contentType] || '.bin'\<close>. The table is an object literal, so a content type that
  names a member of \<open>Object.prototype\<close> finds the inherited member, which is truthy; the
  template of the file name then converts it to text: \<open>[object Object]\<close> for \<open>__proto__\<close>, the
  source text of a native function for the others (\<open>constructor\<close> is the function \<open>Object\<close>).
\<close>

definition inherited_text :: "string \<Rightarrow> string" where
  "inherited_text k =
     (if k = ''__proto__'' then ''[object Object]''
      else if k = ''constructor'' then ''function Object() { [native code] }''
      else ''function '' @ k @ ''() { [native code] }'')"

definition getFileExtension :: "jsval \<Rightarrow> string" where
  "getFileExtension ct =
     (case map_of extensions (js_to_string ct) of
        Some e \<Rightarrow> e
      | None \<Rightarrow>
          if js_to_string ct \<in> set object_prototype_keys then inherited_text (js_to_string ct)
          else ''.bin'')"

text \<open>What the authenticated download does: \<open>fetch\<close> rejects, the response is not \<open>ok\<close>, or
  it delivers a buffer of some length, which \<open>writeFileSync\<close> stores or fails to store.\<close>

datatype media_outcome = MediaFetchError | MediaNotOk | MediaBytes nat bool

definition downloadMedia ::
  "config \<Rightarrow> jsval \<Rightarrow> jsval \<Rightarrow> string \<Rightarrow> nat \<Rightarrow> media_outcome \<Rightarrow> world
     \<Rightarrow> media_info option \<times> world" where
  "downloadMedia cfg mediaUrl mediaContentType reportId now outcome w =
     (if \<not> truthy mediaUrl \<or> TWILIO_ACCOUNT_SID cfg = [] \<or> TWILIO_AUTH_TOKEN cfg = []
      then (None, w)
      else case outcome of
             MediaFetchError \<Rightarrow> (None, w)
           | MediaNotOk \<Rightarrow> (None, w)
           | MediaBytes n write_ok \<Rightarrow>
               (let fname = reportId @ ''_'' @ String_nat now @ getFileExtension mediaContentType
                in if write_ok
                   then (Some \<lparr>filename = fname, filepath = ''media/'' @ fname, size_bytes = n,
                                contentType = mediaContentType, url = ''/media/'' @ fname\<rparr>,
                         w\<lparr>media_files := media_files w @ [fname]\<rparr>)
                   else (None, w)))"

section \<open>Confirmation sender\<close>

text \<open>The acknowledgement text; its first three bytes are the check mark in UTF-8.\<close>

definition confirmation_text :: "report \<Rightarrow> string" where
  "confirmation_text r =
     [CHR 0xE2, CHR 0x9C, CHR 0x85] @ '' Report received!'' @ [CHR 0x0A]
     @ ''Location: '' @ location r @ [CHR 0x0A]
     @ ''Type: '' @ hazardType r @ [CHR 0x0A]
     @ ''Ref: '' @ report_id r @ [CHR 0x0A]
     @ ''Authorities notified. Stay safe!'' @ [CHR 0x0A]
     @ ''- OceanSaksham''"

text \<open>
  The address formatting of \<open>sendConfirmationMessage\<close> and the call of
  \<open>twilioClient.messages.create\<close>, whose result the webhook ignores. A destination that is
  not a string raises a TypeError inside the \<open>try\<close>, which is caught: nothing is sent.
\<close>

definition sendConfirmationMessage :: "config \<Rightarrow> jsval \<Rightarrow> report \<Rightarrow> string \<Rightarrow> world \<Rightarrow> world" where
  "sendConfirmationMessage cfg toNumber r chan w =
     (if TWILIO_ACCOUNT_SID cfg = [] \<or> TWILIO_AUTH_TOKEN cfg = [] then w
      else case toNumber of
             JString t \<Rightarrow>
               (let fromNumber =
                      (if chan = ''whatsapp''
                       then (if TWILIO_WHATSAPP_FROM cfg \<noteq> [] then TWILIO_WHATSAPP_FROM cfg
                             else ''whatsapp:+14155208886'')
                       else TWILIO_PHONE_NUMBER cfg);
                    toFormatted =
                      (if chan = ''whatsapp''
                       then (if startsWith t ''whatsapp:'' then t
                             else ''whatsapp:'' @ replace t ''whatsapp:'' [])
                       else replace t ''whatsapp:'' [])
                in w\<lparr>outbox := outbox w @
                       [\<lparr>msg_body = confirmation_text r, msg_from = fromNumber,
                         msg_to = toFormatted\<rparr>]\<rparr>)
           | _ \<Rightarrow> w)"

section \<open>Webhook authenticator\<close>

text \<open>
  \<open>req.body\<close>: the six fields the webhook reads, and the other own properties of the object.
  The body parsers leave \<open>rawBody\<close> unset unless the request is form-encoded;
  \<open>express.json()\<close> is mounted as well, so the body can be a JSON object with any keys.
\<close>

record payload =
  From :: jsval
  Body :: jsval
  MessageSid :: jsval
  NumMedia :: jsval
  MediaUrl0 :: jsval
  MediaContentType0 :: jsval
  other_props :: "(string \<times> json) list"

record request =
  signature_header :: "string option"
  protocol :: string
  host :: string
  originalUrl :: string
  rawBody :: "string option"
  body :: payload

text \<open>The parameters handed to the gateway library: decoded from the raw body when there
  is one, the parsed body otherwise.\<close>

datatype params = RawParams string | BodyParams payload

text \<open>
  \<open>twilio.validateRequest(authToken, signature, url, params)\<close> belongs to the gateway's
  library and is a parameter of the model.
\<close>

type_synonym validator = "string \<Rightarrow> string \<Rightarrow> string \<Rightarrow> params \<Rightarrow> bool"

definition validationUrl :: "config \<Rightarrow> request \<Rightarrow> string" where
  "validationUrl cfg req =
     (if TWILIO_WEBHOOK_URL cfg \<noteq> [] then TWILIO_WEBHOOK_URL cfg
      else protocol req @ ''://'' @ host req @ originalUrl req)"

definition request_params :: "request \<Rightarrow> params" where
  "request_params req =
     (case rawBody req of
        Some s \<Rightarrow> if s \<noteq> [] then RawParams s else BodyParams (body req)
      | None \<Rightarrow> BodyParams (body req))"

text \<open>
  \<^verbatim>\<open>
  if (!valid) {
    console.error('Twilio validation FAILED!');
    ...
    console.error(' - Raw body (first 300 chars):',
      (req.rawBody ? req.rawBody.toString().slice(0,300) : String(req.body)).replace(/\n/g,' '));
  }
  \<close>
  Console output is not part of the state, but the last line can raise: without a raw body
  it converts \<open>req.body\<close> to a string, which calls the object's \<open>toString\<close>. An own property
  of that name (a JSON value, never a function) hides the inherited method; the conversion
  then falls back to \<open>valueOf\<close>, which does not give a primitive, and raises a TypeError.
  \<open>failure_log\<close> is \<open>Some e\<close> when the block raises \<open>e\<close>.
\<close>

definition failure_log :: "request \<Rightarrow> error option" where
  "failure_log req =
     (case rawBody req of
        Some s \<Rightarrow> None
      | None \<Rightarrow>
          (case map_of (other_props (body req)) ''toString'' of
             Some v \<Rightarrow> Some TypeError
           | None \<Rightarrow> None))"

definition validateTwilioRequest :: "validator \<Rightarrow> config \<Rightarrow> request \<Rightarrow> error + bool" where
  "validateTwilioRequest validateRequest cfg req =
     (if TWILIO_AUTH_TOKEN cfg = [] then Inr True
      else
        (let valid =
               validateRequest (TWILIO_AUTH_TOKEN cfg)
                 (case signature_header req of Some s \<Rightarrow> s | None \<Rightarrow> [])
                 (validationUrl cfg req) (request_params req)
         in if \<not> valid
            then (case failure_log req of Some e \<Rightarrow> Inl e | None \<Rightarrow> Inr valid)
            else Inr valid))"

section \<open>Ingestion orchestrator\<close>

text \<open>What the outside world contributes to one request: the runtime's \<open>toLowerCase\<close>, the
  clock readings, the outcome of the geocoder's lookup and of the media download, and
  whether each write of \<open>reports.json\<close> succeeds.\<close>

record externals =
  lower_case :: "string \<Rightarrow> string"
  geo_now1 :: int
  geo_now2 :: int
  geo_outcome :: lookup_outcome
  save_now :: nat
  created_now :: nat
  save_write_ok :: bool
  media_now :: nat
  media_result :: media_outcome
  media_write_ok :: bool

definition findIndex :: "('a \<Rightarrow> bool) \<Rightarrow> 'a list \<Rightarrow> nat option" where
  "findIndex P xs = (if list_ex P xs then Some (length (takeWhile (\<lambda>x. \<not> P x) xs)) else None)"

text \<open>\<open>NumMedia && parseInt(NumMedia) > 0\<close>, the expression that the webhook uses three times.\<close>

definition media_flag :: "jsval \<Rightarrow> jsval" where
  "media_flag numMedia = js_and numMedia (JBoolean (parseInt_gt0 numMedia))"

definition reportData :: "payload \<Rightarrow> channel_info \<Rightarrow> parsed_report \<Rightarrow> geo_value option \<Rightarrow> report_data" where
  "reportData p channelInfo parsed coords =
     \<lparr>phoneNumber = From p,
      message = js_or (Body p) (JString ''[Media message]''),
      hazardType = p_hazardType parsed,
      location = p_location parsed,
      coordinates = coords,
      urgency = p_urgency parsed,
      messageSid = MessageSid p,
      source = channel channelInfo,
      status = ''pending'',
      hasMedia = media_flag (NumMedia p)\<rparr>"

text \<open>
  The media step. \<open>report\<close> is the very object that \<open>saveReport\<close> put at the head of the
  array, so \<open>report.media = mediaInfo\<close> already changes the stored entry; the assignment
  through \<open>findIndex\<close> and the second write of the file follow.
\<close>

definition attachMedia :: "config \<Rightarrow> externals \<Rightarrow> payload \<Rightarrow> report \<Rightarrow> world \<Rightarrow> report \<times> world" where
  "attachMedia cfg x p r w =
     (if truthy (js_and (media_flag (NumMedia p)) (MediaUrl0 p)) then
        (case downloadMedia cfg (MediaUrl0 p) (MediaContentType0 p) (report_id r) (media_now x)
                (media_result x) w of
           (None, w1) \<Rightarrow> (r, w1)
         | (Some mediaInfo, w1) \<Rightarrow>
             (let r1 = r\<lparr>media := Some mediaInfo\<rparr>;
                  shared = (reports w1)[0 := r1]
              in case findIndex (\<lambda>q. report_id q = report_id r1) shared of
                   None \<Rightarrow> (r1, w1\<lparr>reports := shared\<rparr>)
                 | Some i \<Rightarrow>
                     (r1, persistReports (media_write_ok x) (w1\<lparr>reports := shared[i := r1]\<rparr>))))
      else (r, w))"

text \<open>
  The body of the webhook after the signature check. The two calls that can raise
  (\<open>getChannelInfo\<close> and \<open>parseHazardReport\<close>) come before anything is changed; every later
  step catches its own exceptions. An exception of the signature check itself, like these
  two, ends in the \<open>catch\<close> of the handler, which answers 500.
\<close>

definition ingest :: "config \<Rightarrow> externals \<Rightarrow> payload \<Rightarrow> world \<Rightarrow> error + report \<times> world" where
  "ingest cfg x p w =
     (case getChannelInfo (From p) of
        Inl e \<Rightarrow> Inl e
      | Inr channelInfo \<Rightarrow>
          (case parseHazardReport_with (lower_case x) (js_or (Body p) (JString [])) of
             Inl e \<Rightarrow> Inl e
           | Inr parsed \<Rightarrow>
               (let (coords, w1) =
                      geocodeLocation (p_location parsed) (geo_now1 x) (geo_now2 x) (geo_outcome x) w;
                    (r, w2) =
                      saveReport (reportData p channelInfo parsed coords) (save_now x)
                        (created_now x) (save_write_ok x) w1;
                    (r1, w3) = attachMedia cfg x p r w2;
                    w4 = w3\<lparr>emitted := emitted w3 @ [r1]\<rparr>;
                    w5 = sendConfirmationMessage cfg (From p) r1 (channel channelInfo) w4
                in Inr (r1, w5))))"

text \<open>A response: the status, the content type when the handler sets one, and the body.\<close>

datatype response = Response nat "string option" string

definition incoming_sms ::
  "validator \<Rightarrow> config \<Rightarrow> externals \<Rightarrow> request \<Rightarrow> world \<Rightarrow> response \<times> world" where
  "incoming_sms validateRequest cfg x req w =
     (case validateTwilioRequest validateRequest cfg req of
        Inl e \<Rightarrow>
          (Response 500 (Some ''text/xml'') ''<Response><Message>Error</Message></Response>'', w)
      | Inr ok \<Rightarrow>
          if \<not> ok then (Response 403 None ''Forbidden - invalid Twilio signature'', w)
          else
            (case ingest cfg x (body req) w of
               Inl e \<Rightarrow>
                 (Response 500 (Some ''text/xml'')
                    ''<Response><Message>Error</Message></Response>'', w)
             | Inr (r, w1) \<Rightarrow>
                 (Response 200 (Some ''text/xml'') ''<Response></Response>'', w1)))"

section \<open>Example inputs\<close>

text \<open>Concrete configurations, requests and states at which the properties below are
  instantiated.\<close>

definition example_config :: config where
  "example_config =
     \<lparr>TWILIO_ACCOUNT_SID = ''AC0123'', TWILIO_AUTH_TOKEN = ''secret'',
      TWILIO_PHONE_NUMBER = ''+15550001111'', TWILIO_WHATSAPP_FROM = [],
      TWILIO_WEBHOOK_URL = []\<rparr>"

definition empty_world :: world where
  "empty_world =
     \<lparr>reports = [], reports_file = None, geoCache = Map.empty, lastGeoTs = 0, lookups = [],
      media_files = [], emitted = [], outbox = []\<rparr>"

definition example_externals :: externals where
  "example_externals =
     \<lparr>lower_case = toLowerCase_ascii, geo_now1 = 1700000000000, geo_now2 = 1700000000000,
      geo_outcome = Json (JArr [JObj [(''lat'', JStr ''13.05''), (''lon'', JStr ''80.28'')]]),
      save_now = 1700000000500, created_now = 1700000000500, save_write_ok = True,
      media_now = 1700000000900, media_result = MediaNotOk, media_write_ok = True\<rparr>"

definition example_payload :: payload where
  "example_payload =
     \<lparr>From = JString ''+15557654321'', Body = JString ''storm warning at Port X'',
      MessageSid = JString ''SM1'', NumMedia = JString ''0'', MediaUrl0 = JUndefined,
      MediaContentType0 = JUndefined, other_props = []\<rparr>"

definition example_request :: request where
  "example_request =
     \<lparr>signature_header = Some ''tampered'', protocol = ''https'', host = ''example.org'',
      originalUrl = ''/api/twilio/incoming-sms'', rawBody = Some ''From=%2B15557654321'',
      body = example_payload\<rparr>"

text \<open>A request with the JSON body \<open>{"toString": 1}\<close> and a signature that does not
  validate.\<close>

definition json_request :: request where
  "json_request =
     \<lparr>signature_header = Some ''tampered'', protocol = ''https'', host = ''example.org'',
      originalUrl = ''/api/twilio/incoming-sms'', rawBody = None,
      body = \<lparr>From = JUndefined, Body = JUndefined, MessageSid = JUndefined,
               NumMedia = JUndefined, MediaUrl0 = JUndefined, MediaContentType0 = JUndefined,
               other_props = [(''toString'', JNum 1)]\<rparr>\<rparr>"

definition example_validator :: validator where
  "example_validator tok sig u ps = (sig = ''valid'')"

definition request_with :: "payload \<Rightarrow> request" where
  "request_with p =
     \<lparr>signature_header = Some ''valid'', protocol = ''https'', host = ''example.org'',
      originalUrl = ''/api/twilio/incoming-sms'', rawBody = None, body = p\<rparr>"

definition example_draft :: report_data where
  "example_draft =
     \<lparr>phoneNumber = JString ''+15557654321'', message = JString ''storm warning at Port X'',
      hazardType = ''storm'', location = ''port x'', coordinates = None, urgency = ''medium'',
      messageSid = JString ''SM1'', source = ''sms'', status = ''pending'',
      hasMedia = JBoolean False\<rparr>"

definition full_world :: world where
  "full_world = empty_world\<lparr>reports := replicate 1000 (stamp example_draft 1600000000000 1600000000000)\<rparr>"

definition one_create :: "(report_data \<times> nat \<times> nat \<times> bool) list" where
  "one_create = [(example_draft, 1700000000500, 1700000000501, True)]"









text \<open>A thousand creates of which the first two fall into the same millisecond, and three
  creates at different milliseconds.\<close>

definition burst_creates :: "(report_data \<times> nat \<times> nat \<times> bool) list" where
  "burst_creates =
     (example_draft, 1700000000500, 1700000000500, True)
     # (example_draft, 1700000000500, 1700000000500, True)
     # map (\<lambda>i. (example_draft, 1700000000501 + i, 1700000000501 + i, True)) [0..<998]"

definition spaced_creates :: "(report_data \<times> nat \<times> nat \<times> bool) list" where
  "spaced_creates =
     [(example_draft, 1700000000500, 1700000000500, True),
      (example_draft, 1700000000501, 1700000000501, True),
      (example_draft, 1700000001700, 1700000001700, True)]"

section \<open>Properties\<close>

subsection \<open>Webhook authentication\<close>

text \<open>What the webhook does with a request that the gateway library rejects while the
  shared secret is set: the state stays as it is, and the answer is 403 unless the block
  that logs the failure raises, in which case it is the 500 of the handler's \<open>catch\<close>.\<close>

lemma rejected_request_has_no_effect:
  assumes "TWILIO_AUTH_TOKEN cfg \<noteq> []"
    and "\<not> validateRequest (TWILIO_AUTH_TOKEN cfg)
            (case signature_header req of Some s \<Rightarrow> s | None \<Rightarrow> [])
            (validationUrl cfg req) (request_params req)"
  shows "incoming_sms validateRequest cfg x req w =
           ((case failure_log req of
               None \<Rightarrow> Response 403 None ''Forbidden - invalid Twilio signature''
             | Some e \<Rightarrow>
                 Response 500 (Some ''text/xml'') ''<Response><Message>Error</Message></Response>''),
            w)"
  using assms
  by (simp add: incoming_sms_def validateTwilioRequest_def Let_def split: option.splits)

text \<open>
  C1. A request with the JSON body \<open>{"toString": 1}\<close> and a signature that fails validation
  is answered with HTTP 500, not 403: the line that logs the body raises before the handler
  reaches its 403. The state of the process is the one it started from (no report, no
  lookup, no event, no confirmation). The same signature on a form-encoded request is
  answered with 403.
\<close>

theorem rejected_json_request_is_answered_500:
  "incoming_sms example_validator example_config example_externals json_request empty_world =
     (Response 500 (Some ''text/xml'') ''<Response><Message>Error</Message></Response>'',
      empty_world)
   \<and> incoming_sms example_validator example_config example_externals example_request empty_world =
     (Response 403 None ''Forbidden - invalid Twilio signature'', empty_world)"
proof -
  have tok: "TWILIO_AUTH_TOKEN example_config \<noteq> []"
    by (simp add: example_config_def)
  have bad_json: "\<not> example_validator (TWILIO_AUTH_TOKEN example_config)
          (case signature_header json_request of Some s \<Rightarrow> s | None \<Rightarrow> [])
          (validationUrl example_config json_request) (request_params json_request)"
    by (simp add: example_validator_def json_request_def)
  have bad_form: "\<not> example_validator (TWILIO_AUTH_TOKEN example_config)
          (case signature_header example_request of Some s \<Rightarrow> s | None \<Rightarrow> [])
          (validationUrl example_config example_request) (request_params example_request)"
    by (simp add: example_validator_def example_request_def)
  have "failure_log json_request = Some TypeError"
    by (simp add: failure_log_def json_request_def)
  moreover have "failure_log example_request = None"
    by (simp add: failure_log_def example_request_def)
  ultimately show ?thesis
    using rejected_request_has_no_effect
            [where validateRequest = example_validator and cfg = example_config
               and req = json_request and x = example_externals and w = empty_world]
          rejected_request_has_no_effect
            [where validateRequest = example_validator and cfg = example_config
               and req = example_request and x = example_externals and w = empty_world]
          tok bad_json bad_form
    by simp
qed

subsection \<open>Hazard parser\<close>

text \<open>
  C2, as stated, fails: the location returned for the text
  \<open>Flooding near Marina Beach, urgent help needed\<close> is not \<open>Marina Beach\<close>.
\<close>

theorem marina_beach_capitals_counterexample:
  "parseHazardReport (JString ''Flooding near Marina Beach, urgent help needed'') \<noteq>
     Inr \<lparr>p_hazardType = ''flood'', p_urgency = ''urgent'', p_location = ''Marina Beach'',
          originalMessage = JString ''Flooding near Marina Beach, urgent help needed''\<rparr>"
  by code_simp

text \<open>
  C2, amended. For the text \<open>Flooding near Marina Beach, urgent help needed\<close> the parser
  returns hazard type \<open>flood\<close>, urgency \<open>urgent\<close> and the location \<open>marina beach\<close>: the phrase
  as it stands in the lower-cased message, ended at the comma and trimmed.
\<close>

theorem parse_marina_beach_lowercases_location:
  "parseHazardReport (JString ''Flooding near Marina Beach, urgent help needed'') =
     Inr \<lparr>p_hazardType = ''flood'', p_urgency = ''urgent'', p_location = ''marina beach'',
          originalMessage = JString ''Flooding near Marina Beach, urgent help needed''\<rparr>"
  by code_simp

subsection \<open>Channel detector\<close>

lemma startsWith_append [simp]: "startsWith (p @ t) p"
  by (simp add: startsWith_def)

lemma replace_prefix: "p \<noteq> [] \<Longrightarrow> replace (p @ t) p r = r @ t"
  by (cases p) (simp_all add: startsWith_def)

text \<open>
  C7, as stated, fails for an absent sender: the clean number is \<open>undefined\<close>, not the empty
  string, and \<open>isWhatsApp\<close> is \<open>undefined\<close>, not \<open>false\<close>.
\<close>

theorem getChannelInfo_absent_counterexample:
  "getChannelInfo JUndefined =
     Inr \<lparr>isWhatsApp = JUndefined, cleanNumber = JUndefined, channel = ''sms''\<rparr>
   \<and> getChannelInfo JUndefined \<noteq>
     Inr \<lparr>isWhatsApp = JBoolean False, cleanNumber = JString [], channel = ''sms''\<rparr>"
  by simp

text \<open>
  C7, amended. For an absent or empty sender address the detector does not raise, the
  channel is \<open>sms\<close>, \<open>isWhatsApp\<close> is not truthy, and the clean number is the argument as it
  came (absent stays absent, empty stays empty). For an address with the \<open>whatsapp:\<close> prefix
  \<open>isWhatsApp\<close> is \<open>true\<close> and the clean number is the address without the prefix.
\<close>

theorem getChannelInfo_total_on_absent_and_strips_prefix:
  "(case getChannelInfo JUndefined of
      Inl e \<Rightarrow> False
    | Inr ci \<Rightarrow> \<not> truthy (isWhatsApp ci) \<and> cleanNumber ci = JUndefined \<and> channel ci = ''sms'')
   \<and> (case getChannelInfo (JString []) of
      Inl e \<Rightarrow> False
    | Inr ci \<Rightarrow> \<not> truthy (isWhatsApp ci) \<and> cleanNumber ci = JString [] \<and> channel ci = ''sms'')
   \<and> getChannelInfo (JString (''whatsapp:'' @ t)) =
       Inr \<lparr>isWhatsApp = JBoolean True, cleanNumber = JString t, channel = ''whatsapp''\<rparr>"
proof -
  have "replace (''whatsapp:'' @ t) ''whatsapp:'' [] = t"
    using replace_prefix [of "''whatsapp:''" t "[]"] by simp
  moreover have "startsWith (''whatsapp:'' @ t) ''whatsapp:''"
    by (rule startsWith_append)
  ultimately show ?thesis
    by (simp add: js_and_def Let_def del: replace.simps append.simps)
qed

subsection \<open>Report store\<close>

lemma take_append_take: "take n (xs @ take n ys) = take n (xs @ ys)"
  by (simp add: min_def)

lemma saveReport_reports:
  "reports (snd (saveReport d now created ok w)) = take 1000 (stamp d now created # reports w)"
  by (simp add: saveReport_def persistReports_def Let_def)

lemma saveReport_fst: "fst (saveReport d now created ok w) = stamp d now created"
  by (simp add: saveReport_def Let_def)

lemma create_all_fst:
  "fst (create_all xs w) = map (\<lambda>(d, now, created, ok). stamp d now created) xs"
proof (induction xs arbitrary: w)
  case Nil
  show ?case by simp
next
  case (Cons a xs)
  obtain d now created ok where a: "a = (d, now, created, ok)"
    by (cases a) auto
  show ?case
    using Cons.IH [of "snd (saveReport d now created ok w)"]
    by (simp add: a split_beta Let_def saveReport_fst)
qed

lemma create_all_reports:
  "reports (snd (create_all xs w)) =
     (if xs = [] then reports w else take 1000 (rev (fst (create_all xs w)) @ reports w))"
proof (induction xs arbitrary: w)
  case Nil
  show ?case by simp
next
  case (Cons a xs)
  obtain d now created ok where a: "a = (d, now, created, ok)"
    by (cases a) auto
  let ?w1 = "snd (saveReport d now created ok w)"
  have step: "reports ?w1 = take 1000 (stamp d now created # reports w)"
    by (rule saveReport_reports)
  have unfold: "create_all (a # xs) w =
      (stamp d now created # fst (create_all xs ?w1), snd (create_all xs ?w1))"
    by (simp add: a split_beta Let_def saveReport_fst)
  show ?case
  proof (cases "xs = []")
    case True
    have "create_all (a # xs) w = ([stamp d now created], ?w1)"
      using True by (simp add: a split_beta Let_def saveReport_fst)
    then show ?thesis using True step by simp
  next
    case False
    have "reports (snd (create_all xs ?w1)) =
            take 1000 (rev (fst (create_all xs ?w1)) @ take 1000 (stamp d now created # reports w))"
      using Cons.IH [of ?w1] False by (simp add: step)
    also have "\<dots> = take 1000 (rev (fst (create_all xs ?w1)) @ stamp d now created # reports w)"
      by (rule take_append_take)
    finally show ?thesis by (simp add: unfold)
  qed
qed

text \<open>
  C4. After any run of creates the array holds at most 1000 reports: it is the first 1000
  entries of the reports just created, newest first, followed by the reports held before.
  So each create puts its report at the head, and what falls off the end is the oldest.
  \<open>GET /api/reports\<close> returns this array with its length. (A store that starts with more
  than 1000 entries is cut to 1000 by the first create.)
\<close>

theorem store_holds_newest_thousand:
  "xs \<noteq> [] \<or> length (reports w) \<le> 1000 \<Longrightarrow>
     length (reports (snd (create_all xs w))) \<le> 1000
     \<and> reports (snd (create_all xs w)) = take 1000 (rev (fst (create_all xs w)) @ reports w)
     \<and> fst (create_all xs w) = map (\<lambda>(d, now, created, ok). stamp d now created) xs
     \<and> list_reports (snd (create_all xs w)) =
         (length (reports (snd (create_all xs w))), reports (snd (create_all xs w)))"
  by (auto simp add: create_all_reports create_all_fst list_reports_def)

theorem store_holds_newest_thousand_witness:
  "one_create \<noteq> []
   \<and> length (reports (snd (create_all one_create full_world))) \<le> 1000
   \<and> reports (snd (create_all one_create full_world)) =
       stamp example_draft 1700000000500 1700000000501
         # replicate 999 (stamp example_draft 1600000000000 1600000000000)"
  using store_holds_newest_thousand [of one_create full_world]
  by (simp add: one_create_def full_world_def empty_world_def saveReport_fst)

subsection \<open>Ingestion\<close>

lemma geocodeLocation_reports:
  "reports (snd (geocodeLocation place now1 now2 outcome w)) = reports w"
  by (simp add: geocodeLocation_def geocode_complete_def geocode_dispatch_def
      split: option.splits lookup_outcome.splits sum.splits)

lemma findIndex_head: "P a \<Longrightarrow> findIndex P (a # xs) = Some 0"
  by (simp add: findIndex_def)

lemma attachMedia_keeps_fields:
  "message (fst (attachMedia cfg x p r w)) = message r
   \<and> hasMedia (fst (attachMedia cfg x p r w)) = hasMedia r
   \<and> report_id (fst (attachMedia cfg x p r w)) = report_id r"
  by (simp add: attachMedia_def downloadMedia_def Let_def findIndex_def
      split: media_outcome.splits)

lemma attachMedia_head:
  assumes "reports w = r # rest"
  shows "reports (snd (attachMedia cfg x p r w)) = fst (attachMedia cfg x p r w) # rest"
  using assms
  by (simp add: attachMedia_def downloadMedia_def Let_def findIndex_head persistReports_def
      split: media_outcome.splits)

lemma sendConfirmationMessage_reports:
  "reports (sendConfirmationMessage cfg t r chan w) = reports w"
  by (simp add: sendConfirmationMessage_def Let_def split: jsval.splits)

lemma ingest_result:
  assumes "ingest cfg x p w = Inr (r, w')"
  obtains channelInfo parsed where
    "getChannelInfo (From p) = Inr channelInfo"
    "parseHazardReport_with (lower_case x) (js_or (Body p) (JString [])) = Inr parsed"
    "r = fst (attachMedia cfg x p
               (fst (saveReport (reportData p channelInfo parsed
                       (fst (geocodeLocation (p_location parsed) (geo_now1 x) (geo_now2 x) (geo_outcome x) w)))
                     (save_now x) (created_now x) (save_write_ok x)
                     (snd (geocodeLocation (p_location parsed) (geo_now1 x) (geo_now2 x) (geo_outcome x) w))))
               (snd (saveReport (reportData p channelInfo parsed
                       (fst (geocodeLocation (p_location parsed) (geo_now1 x) (geo_now2 x) (geo_outcome x) w)))
                     (save_now x) (created_now x) (save_write_ok x)
                     (snd (geocodeLocation (p_location parsed) (geo_now1 x) (geo_now2 x) (geo_outcome x) w)))))"
    "reports w' = reports (snd (attachMedia cfg x p
               (fst (saveReport (reportData p channelInfo parsed
                       (fst (geocodeLocation (p_location parsed) (geo_now1 x) (geo_now2 x) (geo_outcome x) w)))
                     (save_now x) (created_now x) (save_write_ok x)
                     (snd (geocodeLocation (p_location parsed) (geo_now1 x) (geo_now2 x) (geo_outcome x) w))))
               (snd (saveReport (reportData p channelInfo parsed
                       (fst (geocodeLocation (p_location parsed) (geo_now1 x) (geo_now2 x) (geo_outcome x) w)))
                     (save_now x) (created_now x) (save_write_ok x)
                     (snd (geocodeLocation (p_location parsed) (geo_now1 x) (geo_now2 x) (geo_outcome x) w))))))"
proof (cases "getChannelInfo (From p)")
  case (Inl e)
  with assms show ?thesis by (simp add: ingest_def)
next
  case ci: (Inr channelInfo)
  show ?thesis
  proof (cases "parseHazardReport_with (lower_case x) (js_or (Body p) (JString []))")
    case (Inl e)
    with assms ci show ?thesis by (simp add: ingest_def)
  next
    case pa: (Inr parsed)
    from assms ci pa have
      "r = fst (attachMedia cfg x p
               (fst (saveReport (reportData p channelInfo parsed
                       (fst (geocodeLocation (p_location parsed) (geo_now1 x) (geo_now2 x) (geo_outcome x) w)))
                     (save_now x) (created_now x) (save_write_ok x)
                     (snd (geocodeLocation (p_location parsed) (geo_now1 x) (geo_now2 x) (geo_outcome x) w))))
               (snd (saveReport (reportData p channelInfo parsed
                       (fst (geocodeLocation (p_location parsed) (geo_now1 x) (geo_now2 x) (geo_outcome x) w)))
                     (save_now x) (created_now x) (save_write_ok x)
                     (snd (geocodeLocation (p_location parsed) (geo_now1 x) (geo_now2 x) (geo_outcome x) w)))))"
      and "reports w' = reports (snd (attachMedia cfg x p
               (fst (saveReport (reportData p channelInfo parsed
                       (fst (geocodeLocation (p_location parsed) (geo_now1 x) (geo_now2 x) (geo_outcome x) w)))
                     (save_now x) (created_now x) (save_write_ok x)
                     (snd (geocodeLocation (p_location parsed) (geo_now1 x) (geo_now2 x) (geo_outcome x) w))))
               (snd (saveReport (reportData p channelInfo parsed
                       (fst (geocodeLocation (p_location parsed) (geo_now1 x) (geo_now2 x) (geo_outcome x) w)))
                     (save_now x) (created_now x) (save_write_ok x)
                     (snd (geocodeLocation (p_location parsed) (geo_now1 x) (geo_now2 x) (geo_outcome x) w))))))"
      by (auto simp add: ingest_def Let_def split_beta sendConfirmationMessage_reports)
    with ci pa that show ?thesis by blast
  qed
qed

text \<open>
  C8, amended. For every request that is ingested, the \<open>message\<close> of the created report is
  the text body when that is not empty, and the placeholder \<open>[Media message]\<close> when the
  body is absent or empty. The report becomes the head of the array and the reports stored
  before keep their place behind it unchanged (the first 999 of them), so no later request
  changes a stored message.
\<close>

theorem ingested_message_is_body_or_placeholder:
  assumes "ingest cfg x p w = Inr (r, w')"
  shows "message r = (if truthy (Body p) then Body p else JString ''[Media message]'')
         \<and> reports w' = r # take 999 (reports w)"
proof -
  from assms obtain channelInfo parsed where
    r: "r = fst (attachMedia cfg x p
               (fst (saveReport (reportData p channelInfo parsed
                       (fst (geocodeLocation (p_location parsed) (geo_now1 x) (geo_now2 x) (geo_outcome x) w)))
                     (save_now x) (created_now x) (save_write_ok x)
                     (snd (geocodeLocation (p_location parsed) (geo_now1 x) (geo_now2 x) (geo_outcome x) w))))
               (snd (saveReport (reportData p channelInfo parsed
                       (fst (geocodeLocation (p_location parsed) (geo_now1 x) (geo_now2 x) (geo_outcome x) w)))
                     (save_now x) (created_now x) (save_write_ok x)
                     (snd (geocodeLocation (p_location parsed) (geo_now1 x) (geo_now2 x) (geo_outcome x) w)))))"
    and rs: "reports w' = reports (snd (attachMedia cfg x p
               (fst (saveReport (reportData p channelInfo parsed
                       (fst (geocodeLocation (p_location parsed) (geo_now1 x) (geo_now2 x) (geo_outcome x) w)))
                     (save_now x) (created_now x) (save_write_ok x)
                     (snd (geocodeLocation (p_location parsed) (geo_now1 x) (geo_now2 x) (geo_outcome x) w))))
               (snd (saveReport (reportData p channelInfo parsed
                       (fst (geocodeLocation (p_location parsed) (geo_now1 x) (geo_now2 x) (geo_outcome x) w)))
                     (save_now x) (created_now x) (save_write_ok x)
                     (snd (geocodeLocation (p_location parsed) (geo_now1 x) (geo_now2 x) (geo_outcome x) w))))))"
    by (rule ingest_result)
  define G where "G = geocodeLocation (p_location parsed) (geo_now1 x) (geo_now2 x) (geo_outcome x) w"
  define d where "d = reportData p channelInfo parsed (fst G)"
  define S where "S = saveReport d (save_now x) (created_now x) (save_write_ok x) (snd G)"
  have r': "r = fst (attachMedia cfg x p (fst S) (snd S))"
    and rs': "reports w' = reports (snd (attachMedia cfg x p (fst S) (snd S)))"
    using r rs by (simp_all add: G_def d_def S_def)
  have w1: "reports (snd G) = reports w"
    by (simp add: G_def geocodeLocation_reports)
  have r0: "fst S = stamp d (save_now x) (created_now x)"
    by (simp add: S_def saveReport_fst)
  have "reports (snd S) = take 1000 (fst S # reports (snd G))"
    by (simp add: S_def saveReport_reports saveReport_fst)
  then have w2: "reports (snd S) = fst S # take 999 (reports w)"
    by (simp add: w1)
  have "message r = message (fst S)"
    by (simp add: r' attachMedia_keeps_fields)
  also have "\<dots> = js_or (Body p) (JString ''[Media message]'')"
    by (simp add: r0 stamp_def d_def reportData_def)
  finally have m: "message r = (if truthy (Body p) then Body p else JString ''[Media message]'')"
    by (simp add: js_or_def)
  have "reports w' = r # take 999 (reports w)"
    using attachMedia_head [OF w2, of cfg x p] by (simp add: rs' r')
  with m show ?thesis by simp
qed


theorem ingested_message_is_body_or_placeholder_witness:
  "\<exists>r w'. ingest example_config example_externals (example_payload\<lparr>Body := JString []\<rparr>) empty_world
            = Inr (r, w')
     \<and> message r = JString ''[Media message]'' \<and> reports w' = [r]"
proof -
  have "\<not> isl (ingest example_config example_externals (example_payload\<lparr>Body := JString []\<rparr>)
                 empty_world)"
    by code_simp
  then obtain r w' where
    eq: "ingest example_config example_externals (example_payload\<lparr>Body := JString []\<rparr>) empty_world
           = Inr (r, w')"
    by (cases "ingest example_config example_externals (example_payload\<lparr>Body := JString []\<rparr>)
                 empty_world") auto
  from ingested_message_is_body_or_placeholder [OF eq]
  have "message r = JString ''[Media message]'' \<and> reports w' = [r]"
    by (simp add: example_payload_def empty_world_def)
  with eq show ?thesis by blast
qed

text \<open>
  C8, as stated, fails for an empty body: the request is ingested (HTTP 200) and the stored
  message is the placeholder, not the empty string.
\<close>

theorem empty_body_counterexample:
  "fst (incoming_sms example_validator example_config example_externals
          (request_with (example_payload\<lparr>Body := JString []\<rparr>)) empty_world) =
     Response 200 (Some ''text/xml'') ''<Response></Response>''
   \<and> map message (reports (snd (incoming_sms example_validator example_config example_externals
          (request_with (example_payload\<lparr>Body := JString []\<rparr>)) empty_world))) =
       [JString ''[Media message]'']
   \<and> map message (reports (snd (incoming_sms example_validator example_config example_externals
          (request_with (example_payload\<lparr>Body := JString []\<rparr>)) empty_world))) \<noteq>
       [JString []]"
  by code_simp

text \<open>
  C9. A request without \<open>NumMedia\<close> is ingested (HTTP 200) and the stored report's
  \<open>hasMedia\<close> is \<open>undefined\<close>, the falsy operand of \<open>&&\<close>, not the boolean \<open>false\<close>; with an
  empty \<open>NumMedia\<close> it is the empty string.
\<close>

theorem absent_NumMedia_hasMedia_undefined:
  "fst (incoming_sms example_validator example_config example_externals
          (request_with (example_payload\<lparr>NumMedia := JUndefined\<rparr>)) empty_world) =
     Response 200 (Some ''text/xml'') ''<Response></Response>''
   \<and> map hasMedia (reports (snd (incoming_sms example_validator example_config example_externals
          (request_with (example_payload\<lparr>NumMedia := JUndefined\<rparr>)) empty_world))) =
       [JUndefined]
   \<and> map hasMedia (reports (snd (incoming_sms example_validator example_config example_externals
          (request_with (example_payload\<lparr>NumMedia := JString []\<rparr>)) empty_world))) =
       [JString []]"
  by code_simp

subsection \<open>Classification by first match\<close>

lemma startsWith_prefix: "startsWith s p = prefix p s"
  by (auto simp add: startsWith_def prefix_def) (metis append_eq_conv_conj)

lemma includes_str_sublist: "includes_str msg w = sublist w msg"
  by (induction msg) (simp_all add: sublist_Cons_right startsWith_prefix)

lemma first_match_hit:
  "i < length cats \<Longrightarrow> keyword_match msg (cats ! i) \<Longrightarrow>
   (\<forall>j<i. \<not> keyword_match msg (cats ! j)) \<Longrightarrow> first_match cats msg dflt = fst (cats ! i)"
proof (induction cats arbitrary: i)
  case Nil
  then show ?case by simp
next
  case (Cons c cats)
  obtain k v where c: "c = (k, v)" by (cases c)
  show ?case
  proof (cases i)
    case 0
    with Cons.prems show ?thesis
      by (simp add: c keyword_match_def list_ex_iff includes_str_sublist)
  next
    case (Suc n)
    from Cons.prems Suc have "\<not> keyword_match msg c" by auto
    then have miss: "\<not> list_ex (\<lambda>w. includes_str msg w) v"
      by (simp add: c keyword_match_def list_ex_iff includes_str_sublist)
    have "first_match cats msg dflt = fst (cats ! n)"
    proof (rule Cons.IH)
      show "n < length cats" using Cons.prems Suc by simp
      show "keyword_match msg (cats ! n)" using Cons.prems Suc by simp
      show "\<forall>j<n. \<not> keyword_match msg (cats ! j)"
      proof (intro allI impI)
        fix j assume "j < n"
        then have "Suc j < i" using Suc by simp
        with Cons.prems have "\<not> keyword_match msg ((c # cats) ! Suc j)" by blast
        then show "\<not> keyword_match msg (cats ! j)" by simp
      qed
    qed
    with miss Suc show ?thesis by (simp add: c)
  qed
qed

lemma first_match_miss:
  "(\<forall>i<length cats. \<not> keyword_match msg (cats ! i)) \<Longrightarrow> first_match cats msg dflt = dflt"
proof (induction cats)
  case Nil
  show ?case by simp
next
  case (Cons c cats)
  obtain k v where c: "c = (k, v)" by (cases c)
  from Cons.prems have "\<not> keyword_match msg ((c # cats) ! 0)" by blast
  then have miss: "\<not> list_ex (\<lambda>w. includes_str msg w) v"
    by (simp add: c keyword_match_def list_ex_iff includes_str_sublist)
  have "\<forall>i<length cats. \<not> keyword_match msg (cats ! i)"
  proof (intro allI impI)
    fix i assume "i < length cats"
    then have "Suc i < length (c # cats)" by simp
    with Cons.prems have "\<not> keyword_match msg ((c # cats) ! Suc i)" by blast
    then show "\<not> keyword_match msg (cats ! i)" by simp
  qed
  with Cons.IH miss show ?case by (simp add: c)
qed

lemma parseHazardReport_with_string:
  "parseHazardReport_with lc (JString s) = Inr (parse_msg (JString s) (lc s))"
  by (cases s) (simp_all add: parseHazardReport_with_def js_or_def)

lemma parseHazardReport_with_absent:
  "parseHazardReport_with lc JUndefined = Inr (parse_msg JUndefined (lc []))"
  by (simp add: parseHazardReport_with_def js_or_def)

lemma no_keyword_in_empty:
  "first_match hazardTypes [] ''other'' = ''other''"
  "first_match urgencyLevels [] ''medium'' = ''medium''"
  by (simp_all add: hazardTypes_def urgencyLevels_def startsWith_def)

text \<open>
  C5. Whatever the runtime's \<open>toLowerCase\<close> is (\<open>lc\<close>), for every message text the parser
  succeeds, and with the lower-cased text \<open>lc s\<close>: the hazard type is the key of the first
  category, in the order flood, tsunami, storm, waves, one of whose keywords occurs in the
  lower-cased text as a contiguous substring; it is \<open>other\<close> when no keyword of any category
  occurs. Urgency is found the same way in the order urgent, medium, low, and is \<open>medium\<close>
  when no trigger occurs. An absent body is classified as the empty text is, which gives
  \<open>other\<close> and \<open>medium\<close> as the empty text lower-cases to itself.
\<close>

theorem hazard_and_urgency_by_first_match:
  "(case parseHazardReport_with lc (JString s) of
      Inl e \<Rightarrow> False
    | Inr r \<Rightarrow>
        (\<forall>i<length hazardTypes.
            keyword_match (lc s) (hazardTypes ! i)
            \<and> (\<forall>j<i. \<not> keyword_match (lc s) (hazardTypes ! j))
            \<longrightarrow> p_hazardType r = fst (hazardTypes ! i))
      \<and> ((\<forall>i<length hazardTypes. \<not> keyword_match (lc s) (hazardTypes ! i))
            \<longrightarrow> p_hazardType r = ''other'')
      \<and> (\<forall>i<length urgencyLevels.
            keyword_match (lc s) (urgencyLevels ! i)
            \<and> (\<forall>j<i. \<not> keyword_match (lc s) (urgencyLevels ! j))
            \<longrightarrow> p_urgency r = fst (urgencyLevels ! i))
      \<and> ((\<forall>i<length urgencyLevels. \<not> keyword_match (lc s) (urgencyLevels ! i))
            \<longrightarrow> p_urgency r = ''medium''))
   \<and> (case parseHazardReport_with lc JUndefined of
      Inl e \<Rightarrow> False
    | Inr r \<Rightarrow>
        (case parseHazardReport_with lc (JString []) of
           Inl e \<Rightarrow> False
         | Inr r0 \<Rightarrow> p_hazardType r = p_hazardType r0 \<and> p_urgency r = p_urgency r0)
      \<and> (lc [] = [] \<longrightarrow> p_hazardType r = ''other'' \<and> p_urgency r = ''medium''))
   \<and> map fst hazardTypes = [''flood'', ''tsunami'', ''storm'', ''waves'']
   \<and> map fst urgencyLevels = [''urgent'', ''medium'', ''low'']"
proof -
  have "map fst hazardTypes = [''flood'', ''tsunami'', ''storm'', ''waves'']"
    by (simp add: hazardTypes_def)
  moreover have "map fst urgencyLevels = [''urgent'', ''medium'', ''low'']"
    by (simp add: urgencyLevels_def)
  moreover have "lc [] = [] \<longrightarrow>
      p_hazardType (parse_msg JUndefined (lc [])) = ''other''
      \<and> p_urgency (parse_msg JUndefined (lc [])) = ''medium''"
    by (simp add: parse_msg_def no_keyword_in_empty)
  ultimately show ?thesis
    by (simp add: parseHazardReport_with_string parseHazardReport_with_absent parse_msg_def
        first_match_hit first_match_miss)
qed

theorem hazard_and_urgency_by_first_match_witness:
  "toLowerCase_ascii ''STORM SURGE, Minor damage'' = ''storm surge, minor damage''
   \<and> keyword_match (toLowerCase_ascii ''STORM SURGE, Minor damage'') (hazardTypes ! 1)
   \<and> \<not> keyword_match (toLowerCase_ascii ''STORM SURGE, Minor damage'') (hazardTypes ! 0)
   \<and> keyword_match (toLowerCase_ascii ''STORM SURGE, Minor damage'') (urgencyLevels ! 2)
   \<and> \<not> keyword_match (toLowerCase_ascii ''STORM SURGE, Minor damage'') (urgencyLevels ! 0)
   \<and> \<not> keyword_match (toLowerCase_ascii ''STORM SURGE, Minor damage'') (urgencyLevels ! 1)
   \<and> (case parseHazardReport_with toLowerCase_ascii (JString ''STORM SURGE, Minor damage'') of
        Inl e \<Rightarrow> False
      | Inr r \<Rightarrow> p_hazardType r = ''tsunami'' \<and> p_urgency r = ''low'')
   \<and> \<not> keyword_match (toLowerCase_ascii ''Hello there'') (hazardTypes ! 0)
   \<and> \<not> keyword_match (toLowerCase_ascii ''Hello there'') (hazardTypes ! 1)
   \<and> \<not> keyword_match (toLowerCase_ascii ''Hello there'') (hazardTypes ! 2)
   \<and> \<not> keyword_match (toLowerCase_ascii ''Hello there'') (hazardTypes ! 3)
   \<and> \<not> keyword_match (toLowerCase_ascii ''Hello there'') (urgencyLevels ! 0)
   \<and> \<not> keyword_match (toLowerCase_ascii ''Hello there'') (urgencyLevels ! 1)
   \<and> \<not> keyword_match (toLowerCase_ascii ''Hello there'') (urgencyLevels ! 2)
   \<and> (case parseHazardReport_with toLowerCase_ascii (JString ''Hello there'') of
        Inl e \<Rightarrow> False
      | Inr r \<Rightarrow> p_hazardType r = ''other'' \<and> p_urgency r = ''medium'')
   \<and> toLowerCase_ascii [] = []
   \<and> (case parseHazardReport_with toLowerCase_ascii JUndefined of
        Inl e \<Rightarrow> False
      | Inr r \<Rightarrow> p_hazardType r = ''other'' \<and> p_urgency r = ''medium'')"
proof -
  let ?A = "toLowerCase_ascii ''STORM SURGE, Minor damage''"
  let ?B = "toLowerCase_ascii ''Hello there''"
  have fold: "?A = ''storm surge, minor damage''"
    by code_simp
  have h1: "keyword_match ?A (hazardTypes ! 1)"
    and h0: "\<not> keyword_match ?A (hazardTypes ! 0)"
    and u2: "keyword_match ?A (urgencyLevels ! 2)"
    and u0: "\<not> keyword_match ?A (urgencyLevels ! 0)"
    and u1: "\<not> keyword_match ?A (urgencyLevels ! 1)"
    by code_simp+
  have n0: "\<not> keyword_match ?B (hazardTypes ! 0)"
    and n1: "\<not> keyword_match ?B (hazardTypes ! 1)"
    and n2: "\<not> keyword_match ?B (hazardTypes ! 2)"
    and n3: "\<not> keyword_match ?B (hazardTypes ! 3)"
    and m0: "\<not> keyword_match ?B (urgencyLevels ! 0)"
    and m1: "\<not> keyword_match ?B (urgencyLevels ! 1)"
    and m2: "\<not> keyword_match ?B (urgencyLevels ! 2)"
    by code_simp+
  have empty: "toLowerCase_ascii [] = []"
    by (simp add: toLowerCase_ascii_def)
  have lens: "length hazardTypes = 4" "length urgencyLevels = 3"
    by (simp_all add: hazardTypes_def urgencyLevels_def)
  have keys: "fst (hazardTypes ! 1) = ''tsunami''" "fst (urgencyLevels ! 2) = ''low''"
    by (simp_all add: hazardTypes_def urgencyLevels_def)
  have below1: "\<forall>j<1. \<not> keyword_match ?A (hazardTypes ! j)"
    using h0 by simp
  have below2: "\<forall>j<2. \<not> keyword_match ?A (urgencyLevels ! j)"
    using u0 u1 by (auto simp add: less_Suc_eq numeral_2_eq_2)
  have none_h: "\<forall>i<length hazardTypes. \<not> keyword_match ?B (hazardTypes ! i)"
    using n0 n1 n2 n3 by (auto simp add: lens less_Suc_eq numeral_nat)
  have none_u: "\<forall>i<length urgencyLevels. \<not> keyword_match ?B (urgencyLevels ! i)"
    using m0 m1 m2 by (auto simp add: lens less_Suc_eq numeral_nat)
  obtain r where r: "parseHazardReport_with toLowerCase_ascii (JString ''STORM SURGE, Minor damage'') = Inr r"
    by (simp add: parseHazardReport_with_string)
  obtain q where q: "parseHazardReport_with toLowerCase_ascii (JString ''Hello there'') = Inr q"
    by (simp add: parseHazardReport_with_string)
  obtain a where a: "parseHazardReport_with toLowerCase_ascii JUndefined = Inr a"
    by (simp add: parseHazardReport_with_absent)
  obtain a0 where a0: "parseHazardReport_with toLowerCase_ascii (JString []) = Inr a0"
    by (simp add: parseHazardReport_with_string)
  have T1: "\<forall>i<length hazardTypes.
            keyword_match ?A (hazardTypes ! i) \<and> (\<forall>j<i. \<not> keyword_match ?A (hazardTypes ! j))
            \<longrightarrow> p_hazardType r = fst (hazardTypes ! i)"
    and T2: "\<forall>i<length urgencyLevels.
            keyword_match ?A (urgencyLevels ! i) \<and> (\<forall>j<i. \<not> keyword_match ?A (urgencyLevels ! j))
            \<longrightarrow> p_urgency r = fst (urgencyLevels ! i)"
    using hazard_and_urgency_by_first_match [of toLowerCase_ascii "''STORM SURGE, Minor damage''"]
    by (simp_all add: r)
  have T3: "(\<forall>i<length hazardTypes. \<not> keyword_match ?B (hazardTypes ! i))
            \<longrightarrow> p_hazardType q = ''other''"
    and T4: "(\<forall>i<length urgencyLevels. \<not> keyword_match ?B (urgencyLevels ! i))
            \<longrightarrow> p_urgency q = ''medium''"
    using hazard_and_urgency_by_first_match [of toLowerCase_ascii "''Hello there''"]
    by (simp_all add: q)
  have T5: "toLowerCase_ascii [] = [] \<longrightarrow> p_hazardType a = ''other'' \<and> p_urgency a = ''medium''"
    using hazard_and_urgency_by_first_match [of toLowerCase_ascii "[]"]
    by (auto simp add: a a0)
  have "p_hazardType r = ''tsunami''"
    using T1 [rule_format, of 1] h1 below1 keys lens by simp
  moreover have "p_urgency r = ''low''"
    using T2 [rule_format, of 2] u2 below2 keys lens by simp
  moreover have "p_hazardType q = ''other''"
    using T3 none_h by blast
  moreover have "p_urgency q = ''medium''"
    using T4 none_u by blast
  moreover have "p_hazardType a = ''other'' \<and> p_urgency a = ''medium''"
    using T5 empty by blast
  ultimately show ?thesis
    using fold h1 h0 u2 u0 u1 n0 n1 n2 n3 m0 m1 m2 empty by (simp add: r q a)
qed

subsection \<open>Geocoder\<close>


lemma geoCache_dispatch [simp]:
  "geoCache (geocode_dispatch place now1 now2 w) = geoCache w"
  by (simp add: geocode_dispatch_def)








subsection \<open>Report identifiers\<close>

lemma digit_val_digit_char: "m < 10 \<Longrightarrow> digit_val (digit_char m) = Some m"
proof -
  assume "m < 10"
  then have "m \<in> {0, 1, 2, 3, 4, 5, 6, 7, 8, 9}" by auto
  then show ?thesis
    by (elim insertE emptyE; hypsubst; code_simp)
qed

lemma digits_value_snoc:
  "digits_value r (ds @ [c]) = digits_value r ds * r + (case digit_val c of Some d \<Rightarrow> d | None \<Rightarrow> 0)"
  by (simp add: digits_value_def)

lemma digits_value_String_nat: "digits_value 10 (String_nat n) = n"
proof (induction n rule: String_nat.induct)
  case (1 n)
  show ?case
  proof (cases "n < 10")
    case True
    then show ?thesis
      using digits_value_snoc [of 10 "[]" "digit_char n"]
      by (simp add: String_nat.simps [of n] digit_val_digit_char digits_value_def)
  next
    case False
    then have "digits_value 10 (String_nat (n div 10)) = n div 10"
      using 1 by simp
    then show ?thesis
      using False
      by (simp add: String_nat.simps [of n] digits_value_snoc digit_val_digit_char)
  qed
qed

lemma String_nat_digits: "c \<in> set (String_nat n) \<Longrightarrow> is_digit 10 c"
proof (induction n rule: String_nat.induct)
  case (1 n)
  show ?case
  proof (cases "n < 10")
    case True
    with 1(2) show ?thesis
      by (simp add: String_nat.simps [of n] is_digit_def digit_val_digit_char)
  next
    case False
    with 1 show ?thesis
      by (auto simp add: String_nat.simps [of n] is_digit_def digit_val_digit_char)
  qed
qed

lemma digits_value_bound:
  "(\<forall>c \<in> set ds. is_digit 10 c) \<Longrightarrow> digits_value 10 ds < 10 ^ length ds"
proof (induction ds rule: rev_induct)
  case Nil
  show ?case by (simp add: digits_value_def)
next
  case (snoc c ds)
  then have "digits_value 10 ds < 10 ^ length ds" by simp
  moreover from snoc.prems obtain d where "digit_val c = Some d" "d < 10"
    by (auto simp add: is_digit_def split: option.splits)
  ultimately show ?case
    by (simp add: digits_value_snoc)
qed

lemma digits_value_append:
  "digits_value 10 (xs @ ys) = digits_value 10 xs * 10 ^ length ys + digits_value 10 ys"
proof (induction ys rule: rev_induct)
  case Nil
  show ?case by (simp add: digits_value_def)
next
  case (snoc c ys)
  have "digits_value 10 (xs @ ys @ [c]) =
          digits_value 10 (xs @ ys) * 10 + (case digit_val c of Some d \<Rightarrow> d | None \<Rightarrow> 0)"
    using digits_value_snoc [of 10 "xs @ ys" c] by simp
  then show ?case
    by (simp add: snoc.IH digits_value_snoc algebra_simps)
qed

lemma digits_value_slice_last:
  assumes "\<forall>c \<in> set s. is_digit 10 c"
  shows "digits_value 10 (slice_last k s) = digits_value 10 s mod 10 ^ k"
proof -
  let ?a = "take (length s - k) s" and ?b = "drop (length s - k) s"
  have b: "digits_value 10 ?b < 10 ^ length ?b"
    using assms by (intro digits_value_bound) (auto dest: in_set_dropD)
  have "length ?b \<le> k" by simp
  then have "(10::nat) ^ length ?b \<le> 10 ^ k"
    by (intro power_increasing) simp_all
  with b have small: "digits_value 10 ?b < 10 ^ k"
    by (rule less_le_trans)
  have "digits_value 10 s = digits_value 10 ?a * 10 ^ length ?b + digits_value 10 ?b"
    using digits_value_append [of ?a ?b] by simp
  moreover have "digits_value 10 ?a * 10 ^ length ?b mod 10 ^ k = 0"
  proof (cases "k \<le> length s")
    case True
    then have "length ?b = k" by simp
    then show ?thesis by simp
  next
    case False
    then have e: "length s - k = 0" by simp
    show ?thesis by (simp add: e digits_value_def)
  qed
  ultimately have "digits_value 10 s mod 10 ^ k = digits_value 10 ?b mod 10 ^ k"
    by (metis add_cancel_left_left mod_add_left_eq)
  with small show ?thesis by (simp add: slice_last_def)
qed

lemma make_id_eq_mod:
  assumes "make_id a = make_id b"
  shows "a mod 10 ^ 9 = b mod 10 ^ 9"
proof -
  from assms have "slice_last 9 (String_nat a) = slice_last 9 (String_nat b)"
    by (simp add: make_id_def)
  then have "digits_value 10 (slice_last 9 (String_nat a)) = digits_value 10 (slice_last 9 (String_nat b))"
    by simp
  then show ?thesis
    by (simp add: digits_value_slice_last String_nat_digits digits_value_String_nat)
qed

lemma create_all_ids:
  "map report_id (fst (create_all xs w)) = map (\<lambda>(d, now, created, ok). make_id now) xs"
  by (simp add: create_all_fst stamp_def split_beta)

text \<open>
  C3, amended. In every run of creates each returned report has a non-empty id, and the ids
  are pairwise distinct whenever the clock readings of the creates are pairwise distinct
  modulo \<open>10\<^sup>9\<close> milliseconds (the id keeps the last nine digits of the reading, or all
  of its digits when there are fewer).
\<close>

theorem ids_nonempty_and_distinct_modulo_window:
  "(\<forall>r \<in> set (fst (create_all xs w)). report_id r \<noteq> [])
   \<and> (distinct (map (\<lambda>(d, now, created, ok). now mod 10 ^ 9) xs)
        \<longrightarrow> distinct (map report_id (fst (create_all xs w))))"
proof -
  have "\<forall>r \<in> set (fst (create_all xs w)). report_id r \<noteq> []"
    by (auto simp add: create_all_fst stamp_def make_id_def)
  moreover have "distinct (map report_id (fst (create_all xs w)))"
    if d: "distinct (map (\<lambda>(d, now, created, ok). now mod 10 ^ 9) xs)"
  proof -
    have "distinct xs" using d by (simp add: distinct_map)
    moreover have "inj_on (\<lambda>(d, now, created, ok). make_id now) (set xs)"
    proof (rule inj_onI)
      fix x y assume x: "x \<in> set xs" and y: "y \<in> set xs"
        and eq: "(\<lambda>(d, now, created, ok). make_id now) x = (\<lambda>(d, now, created, ok). make_id now) y"
      from eq have "(\<lambda>(d, now, created, ok). now mod 10 ^ 9) x = (\<lambda>(d, now, created, ok). now mod 10 ^ 9) y"
        by (auto simp add: split_beta dest: make_id_eq_mod)
      with d x y show "x = y"
        by (meson distinct_map inj_onD)
    qed
    ultimately show ?thesis
      by (simp add: create_all_ids distinct_map)
  qed
  ultimately show ?thesis by blast
qed

theorem ids_nonempty_and_distinct_modulo_window_witness:
  "distinct (map (\<lambda>(d, now, created, ok). now mod 10 ^ 9) spaced_creates)
   \<and> distinct (map report_id (fst (create_all spaced_creates empty_world)))
   \<and> map report_id (fst (create_all spaced_creates empty_world)) =
       [''REP000000500'', ''REP000000501'', ''REP000001700'']"
proof -
  have d: "distinct (map (\<lambda>(d, now, created, ok). now mod 10 ^ 9) spaced_creates)"
    by (simp add: spaced_creates_def)
  have ids: "map report_id (fst (create_all spaced_creates empty_world)) =
       [''REP000000500'', ''REP000000501'', ''REP000001700'']"
    by code_simp
  from ids_nonempty_and_distinct_modulo_window [of spaced_creates empty_world] d
  have "distinct (map report_id (fst (create_all spaced_creates empty_world)))"
    by blast
  with d ids show ?thesis by blast
qed

text \<open>
  C3, as stated, fails: two of a thousand sequential creates that read the same millisecond
  get the same id.
\<close>

theorem same_millisecond_ids_collide_counterexample:
  "length burst_creates = 1000
   \<and> \<not> distinct (map report_id (fst (create_all burst_creates empty_world)))"
  by (simp only: create_all_ids) (simp add: burst_creates_def)

end
